theory Spec2Isabelle
  imports Main "HOL-Library.Word" "HOL-Library.AList"
begin

section \<open>Go values used by the session channel handler\<close>

type_synonym u8 = "8 word"
type_synonym u16 = "16 word"
type_synonym u32 = "32 word"

text \<open>
  A Go \<^verbatim>\<open>map[string]string\<close> is a reference to a table. The table is an association list
  whose order is the order in which a \<^verbatim>\<open>range\<close> loop visits it (Go leaves that order
  unspecified, so nothing below depends on it). The tables live in a store, and a map value
  is an address into the store, or \<open>None\<close> for the nil map.
\<close>

type_synonym gomap = "(string \<times> string) list"
type_synonym ref = nat
type_synonym heap = "ref \<Rightarrow> gomap"

definition map_range :: "heap \<Rightarrow> ref option \<Rightarrow> (string \<times> string) list" where
  "map_range H r = (case r of None \<Rightarrow> [] | Some a \<Rightarrow> H a)"

text \<open>\<^verbatim>\<open>m[k] = v\<close>: the table behind the reference is changed in place; on the nil map the
  assignment panics (\<open>None\<close>).\<close>

definition map_assign :: "heap \<Rightarrow> ref option \<Rightarrow> string \<Rightarrow> string \<Rightarrow> heap option" where
  "map_assign H r k v =
     (case r of None \<Rightarrow> None | Some a \<Rightarrow> Some (H(a := AList.update k v (H a))))"

text \<open>\<^verbatim>\<open>os.Getenv\<close>: the empty string for a variable that is not set.\<close>

definition Getenv :: "(string \<rightharpoonup> string) \<Rightarrow> string \<Rightarrow> string" where
  "Getenv os k = (case os k of None \<Rightarrow> [] | Some v \<Rightarrow> v)"

section \<open>The session\<close>

record ptyRequestMsg =
  Term :: string
  Columns :: u32
  Rows :: u32
  Width :: u32
  Height :: u32
  Modelist :: "u8 list"

datatype stdio = Unset | OnChannel | OnPtySlave

record cmd =
  Path :: string
  Args :: "string list"
  Env :: "string list"
  Stdio :: stdio

text \<open>The \<^verbatim>\<open>session\<close> struct. \<open>mutex\<close> is the embedded \<^verbatim>\<open>sync.Mutex\<close> (True: held); the logger,
  the runner, the SCP handler and the wait group carry no state of the model.\<close>

record session =
  complete :: bool
  shellPath :: string
  channel :: "nat option"
  mutex :: bool
  env :: "ref option"
  command :: "cmd option"
  allocPty :: bool
  ptyRequest :: ptyRequestMsg
  ptyMaster :: "nat option"

record SessionChannelHandler =
  shellLocator :: string
  defaultEnv :: "ref option"

definition newSession :: "SessionChannelHandler \<Rightarrow> nat \<Rightarrow> session" where
  "newSession handler ch =
     \<lparr> complete = False,
       shellPath = shellLocator handler,
       channel = Some ch,
       mutex = False,
       env = defaultEnv handler,
       command = None,
       allocPty = False,
       ptyRequest = \<lparr> Term = [], Columns = 0, Rows = 0, Width = 0, Height = 0, Modelist = [] \<rparr>,
       ptyMaster = None \<rparr>"

section \<open>Effects and the state of a run\<close>

datatype exit_msg = ExitStatus u32 | ExitSignal string bool

text \<open>What the session does to its collaborators, in the order it does it: a reply sent
  for a request, a call of the SCP handler, of \<^verbatim>\<open>runner.Start\<close>, of \<^verbatim>\<open>Signal\<close> on the process
  of the command, of \<^verbatim>\<open>channel.SendRequest\<close> with an exit message, of \<^verbatim>\<open>Close\<close> on the channel
  or the PTY master, of the window-size ioctl and of a termios setter.\<close>

datatype effect =
    Reply bool
  | HandleSCPRequest string
  | TermiosSet nat u32
  | SetWinsize nat u16 u16
  | RunnerStart cmd
  | RunnerSignal int
  | SendRequest exit_msg
  | ChannelClose nat
  | PtyMasterClose nat

datatype waiter = NoWaiter | InWait | AfterSend

text \<open>
  \<open>heap\<close> is the store of Go maps, \<open>osenv\<close> the environment of the host process, \<open>trace\<close>
  the effects so far. \<open>panicked\<close>: the code that just ran has panicked (set by the function
  that panics, cleared once the panic has been dealt with). \<open>crashed\<close>: an unrecovered panic
  has ended the process. \<open>serving\<close>: the request loop of \<^verbatim>\<open>serviceRequests\<close> is still
  reading requests. \<open>waiter\<close>: the goroutine that \<^verbatim>\<open>executeShell\<close> starts is blocked in
  \<^verbatim>\<open>runner.Wait\<close> (\<open>InWait\<close>), or has sent the exit message and not yet called \<^verbatim>\<open>destroy\<close>
  (\<open>AfterSend\<close>). \<open>process\<close>: the \<^verbatim>\<open>Process\<close> field of the session's command is not nil, which
  it is from a successful \<^verbatim>\<open>Start\<close> on (it is kept beside the command, so that \<open>cmd\<close> stays
  the value that is handed to the runner).
\<close>

record st =
  sess :: session
  heap :: heap
  osenv :: "string \<rightharpoonup> string"
  trace :: "effect list"
  panicked :: bool
  crashed :: bool
  serving :: bool
  waiter :: waiter
  process :: bool

definition emit :: "effect \<Rightarrow> st \<Rightarrow> st" where
  "emit e s = s\<lparr> trace := trace s @ [e] \<rparr>"

definition Lock :: "st \<Rightarrow> st" where
  "Lock s = s\<lparr> sess := (sess s)\<lparr> mutex := True \<rparr> \<rparr>"

definition Unlock :: "st \<Rightarrow> st" where
  "Unlock s = s\<lparr> sess := (sess s)\<lparr> mutex := False \<rparr> \<rparr>"

section \<open>The environment of the child\<close>

text \<open>The \<^verbatim>\<open>range\<close> loop of \<^verbatim>\<open>environment\<close>: every pair whose key is neither HOME nor USER
  is appended as \<^verbatim>\<open>k=v\<close>.\<close>

fun environment_range :: "(string \<times> string) list \<Rightarrow> string list \<Rightarrow> string list" where
  "environment_range [] acc = acc"
| "environment_range ((k, v) # kvs) acc =
     environment_range kvs
       (if k \<noteq> ''HOME'' \<and> k \<noteq> ''USER'' then acc @ [k @ ''='' @ v] else acc)"

definition environment :: "st \<Rightarrow> string list" where
  "environment s =
     (let e0 = [];
          e1 = e0 @ [''PATH=/bin:/usr/bin''];
          e2 = e1 @ [''LANG=en_US.UTF8''];
          e3 = environment_range (map_range (heap s) (env (sess s))) e2;
          e4 = e3 @ [''HOME='' @ Getenv (osenv s) ''HOME''];
          e5 = e4 @ [''USER='' @ Getenv (osenv s) ''USER'']
      in e5)"

section \<open>destroy\<close>

text \<open>
  \<^verbatim>\<open>destroy\<close> takes the session mutex first: called while the mutex is held for good (a
  handler panicked inside its critical section) it blocks for ever and does nothing. The
  join on the wait group (\<^verbatim>\<open>sess.wg.Wait()\<close>) is taken to return.
\<close>

definition destroy :: "st \<Rightarrow> st" where
  "destroy s =
     (if mutex (sess s) then s
      else if complete (sess s) then s
      else
        let s1 = s\<lparr> sess := (sess s)\<lparr> complete := True \<rparr> \<rparr>;
            s2 = (case channel (sess s1) of None \<Rightarrow> s1 | Some ch \<Rightarrow> emit (ChannelClose ch) s1);
            s3 = (case ptyMaster (sess s2) of None \<Rightarrow> s2 | Some fd \<Rightarrow> emit (PtyMasterClose fd) s2)
        in s3)"

text \<open>The closes a first call of \<^verbatim>\<open>destroy\<close> performs on a session.\<close>

definition closes :: "session \<Rightarrow> effect list" where
  "closes x =
     (case channel x of None \<Rightarrow> [] | Some ch \<Rightarrow> [ChannelClose ch]) @
     (case ptyMaster x of None \<Rightarrow> [] | Some fd \<Rightarrow> [PtyMasterClose fd])"

section \<open>Tables and requests\<close>

text \<open>
  Modelled from the spec: the tables \<^verbatim>\<open>SyscallSignals\<close>, \<^verbatim>\<open>SSHSignals\<close> and \<^verbatim>\<open>TermAttrSetters\<close>
  are declared outside the given sources. The spec describes them as static maps: SSH signal
  name to OS signal, OS signal to SSH signal name, and termios opcode to a setter. They are
  parameters of the model. A setter is known by a number only; what it does to the terminal
  is the effect \<open>TermiosSet\<close>. Indexing a Go map at a key it does not hold gives the zero value
  of the element type: signal 0, the empty name, the nil setter.
\<close>

record tables =
  SyscallSignals :: "string \<rightharpoonup> int"
  SSHSignals :: "int \<rightharpoonup> string"
  TermAttrSetters :: "u8 \<rightharpoonup> nat"

definition syscallSignal :: "tables \<Rightarrow> string \<Rightarrow> int" where
  "syscallSignal T name = (case SyscallSignals T name of None \<Rightarrow> 0 | Some sg \<Rightarrow> sg)"

definition sshSignal :: "tables \<Rightarrow> int \<Rightarrow> string" where
  "sshSignal T sg = (case SSHSignals T sg of None \<Rightarrow> [] | Some name \<Rightarrow> name)"

text \<open>
  A request carries its type, \<^verbatim>\<open>WantReply\<close> and a payload. \<^verbatim>\<open>ssh.Unmarshal\<close> belongs to the
  SSH library; a payload is represented by the message it unmarshals to, each handler
  accepting only the shape it asks for, and \<open>Malformed\<close> is a payload no handler can
  unmarshal.
\<close>

datatype payload =
    EnvMsg string string
  | SignalMsg string
  | PtyMsg ptyRequestMsg
  | WindowChangeMsg u32 u32 u32 u32
  | ExecMsg string
  | Malformed

record request =
  Type :: string
  WantReply :: bool
  Payload :: payload

text \<open>\<^verbatim>\<open>request.Reply\<close> of the SSH library sends a reply only for a request that wants one;
  called for any other request it does nothing. The effect \<open>Reply\<close> is a reply sent.\<close>

definition request_Reply :: "request \<Rightarrow> bool \<Rightarrow> st \<Rightarrow> st" where
  "request_Reply request ok s = (if WantReply request then emit (Reply ok) s else s)"

text \<open>
  What the operating system answers while a command is set up: the error of
  \<^verbatim>\<open>StdinPipe\<close>, of \<^verbatim>\<open>pty.Open\<close> (or the master it opens), whether the \<open>i\<close>-th call of
  \<^verbatim>\<open>TcGetAttr\<close> succeeds, and the error of \<^verbatim>\<open>runner.Start\<close>. An error value is known by what
  \<^verbatim>\<open>sendExitMessage\<close> asks of it.
\<close>

datatype go_error =
    OtherError
  | ExitErrorNoWaitStatus
  | Signaled int bool
  | Exited int

record os_results =
  stdinPipe :: "go_error option"
  ptyOpen :: "go_error + nat"
  tcGetAttr :: "nat \<Rightarrow> bool"
  start :: "go_error option"

section \<open>The SCP prefix\<close>

text \<open>\<^verbatim>\<open>\s\<close> in Go's regular expressions is tab, newline, form feed, carriage return or space.\<close>

definition isSpace :: "char \<Rightarrow> bool" where
  "isSpace c = (c = CHR 0x09 \<or> c = CHR 0x0A \<or> c = CHR 0x0C \<or> c = CHR 0x0D \<or> c = CHR '' '')"

text \<open>\<^verbatim>\<open>scpRegex.MatchString\<close> for \<^verbatim>\<open>^\s*scp($|\s+)\<close>: leading white space, then \<^verbatim>\<open>scp\<close>, then the
  end of the text or white space.\<close>

definition scpRegex_MatchString :: "string \<Rightarrow> bool" where
  "scpRegex_MatchString str =
     (case dropWhile isSpace str of
        c1 # c2 # c3 # rest \<Rightarrow>
          c1 = CHR ''s'' \<and> c2 = CHR ''c'' \<and> c3 = CHR ''p'' \<and>
          (case rest of [] \<Rightarrow> True | c # _ \<Rightarrow> isSpace c)
      | _ \<Rightarrow> False)"

section \<open>The request handlers\<close>

definition handleEnvironmentRequest :: "request \<Rightarrow> st \<Rightarrow> st" where
  "handleEnvironmentRequest request s =
     (case Payload request of
        EnvMsg name val \<Rightarrow>
          (let s1 = Lock s in
           case map_assign (heap s1) (env (sess s1)) name val of
             None \<Rightarrow> s1\<lparr> panicked := True \<rparr>
           | Some H \<Rightarrow>
               let s2 = Unlock (s1\<lparr> heap := H \<rparr>)
               in if WantReply request then request_Reply request True s2 else s2)
      | _ \<Rightarrow> request_Reply request False s)"

text \<open>
  The handlers for \<^verbatim>\<open>signal\<close>, \<^verbatim>\<open>pty-req\<close> and \<^verbatim>\<open>window-change\<close> release the mutex by a
  deferred \<^verbatim>\<open>Unlock\<close>, which also runs when the assignment to the map panics. A handler is
  entered with the mutex free: the request loop calls one handler at a time, and the only
  other taker, \<^verbatim>\<open>destroy\<close>, does not keep it.

  \<^verbatim>\<open>commandRunner.Signal\<close> is \<^verbatim>\<open>cmd.Process.Signal(signal)\<close>: on a command whose \<^verbatim>\<open>Process\<close> is nil
  (it was never started, or \<^verbatim>\<open>Start\<close> failed) the call panics. Signal 0 is the null signal:
  handed to the process, it delivers nothing.
\<close>

definition commandRunner_Signal :: "int \<Rightarrow> st \<Rightarrow> st" where
  "commandRunner_Signal sg s = (if process s then emit (RunnerSignal sg) s else s\<lparr> panicked := True \<rparr>)"

definition handleSignalRequest :: "tables \<Rightarrow> request \<Rightarrow> st \<Rightarrow> st" where
  "handleSignalRequest T request s =
     (case Payload request of
        SignalMsg name \<Rightarrow>
          (let s1 = Lock s;
               s2 = (case command (sess s1) of
                       None \<Rightarrow> s1
                     | Some c \<Rightarrow> commandRunner_Signal (syscallSignal T name) s1)
           in if panicked s2 then Unlock s2
              else
                let s3 = (if WantReply request then request_Reply request True s2 else s2)
                in Unlock s3)
      | _ \<Rightarrow> if WantReply request then request_Reply request False s else s)"

definition handlePtyRequest :: "request \<Rightarrow> st \<Rightarrow> st" where
  "handlePtyRequest request s =
     (case Payload request of
        PtyMsg m \<Rightarrow>
          (let s0 = Lock s;
               s1 = s0\<lparr> sess := (sess s0)\<lparr> allocPty := True, ptyRequest := m \<rparr> \<rparr>
           in case map_assign (heap s1) (env (sess s1)) ''TERM'' (Term m) of
                None \<Rightarrow> Unlock (s1\<lparr> panicked := True \<rparr>)
              | Some H \<Rightarrow>
                  let s2 = s1\<lparr> heap := H \<rparr>;
                      s3 = (if WantReply request then request_Reply request True s2 else s2)
                  in Unlock s3)
      | _ \<Rightarrow> if WantReply request then request_Reply request False s else s)"

definition setWindowSize :: "nat \<Rightarrow> u32 \<Rightarrow> u32 \<Rightarrow> st \<Rightarrow> st" where
  "setWindowSize fd columns rows s = emit (SetWinsize fd (ucast columns) (ucast rows)) s"

definition handleWindowChangeRequest :: "request \<Rightarrow> st \<Rightarrow> st" where
  "handleWindowChangeRequest request s =
     (case Payload request of
        WindowChangeMsg columns rows widthPx heightPx \<Rightarrow>
          (let s0 = Lock s;
               s1 = (if allocPty (sess s0)
                     then s0\<lparr> sess := (sess s0)
                            \<lparr> ptyRequest := (ptyRequest (sess s0))\<lparr> Columns := columns, Rows := rows \<rparr> \<rparr> \<rparr>
                     else s0);
               s2 = (case ptyMaster (sess s1) of
                       None \<Rightarrow> s1
                     | Some fd \<Rightarrow>
                         setWindowSize fd (Columns (ptyRequest (sess s1)))
                           (Rows (ptyRequest (sess s1))) s1);
               s3 = (if WantReply request then request_Reply request True s2 else s2)
           in Unlock s3)
      | _ \<Rightarrow> if WantReply request then request_Reply request False s else s)"

section \<open>The termios modelist\<close>

definition be32 :: "u8 \<Rightarrow> u8 \<Rightarrow> u8 \<Rightarrow> u8 \<Rightarrow> u32" where
  "be32 b3 b2 b1 b0 =
     push_bit 24 (ucast b3) + push_bit 16 (ucast b2) + push_bit 8 (ucast b1) + ucast b0"

datatype modelist_end = OpcodeEOF | Terminator u8 | ValueEOF | NilSetter u8

text \<open>
  The loop of \<^verbatim>\<open>setTerminalAttributes\<close> over the bytes not yet read; \<open>i\<close> counts the calls of
  \<^verbatim>\<open>TcGetAttr\<close>. The result is the setters applied, why the loop ended, and the bytes left
  unread. A failed read of the four value bytes has consumed what was left. The source calls
  \<^verbatim>\<open>TermAttrSetters[opcode].Set\<close> without testing whether the map holds the opcode: on an
  opcode without an entry the receiver is nil and the call panics (\<open>NilSetter\<close>).
\<close>

fun setTerminalAttributes ::
  "(u8 \<rightharpoonup> nat) \<Rightarrow> (nat \<Rightarrow> bool) \<Rightarrow> nat \<Rightarrow> u8 list \<Rightarrow> effect list \<times> modelist_end \<times> u8 list" where
  "setTerminalAttributes setters tc i [] = ([], OpcodeEOF, [])"
| "setTerminalAttributes setters tc i (opcode # rest) =
     (if opcode = 0 \<or> 160 \<le> opcode then ([], Terminator opcode, rest)
      else
        case rest of
          b3 # b2 # b1 # b0 # rest' \<Rightarrow>
            (if \<not> tc i then setTerminalAttributes setters tc (Suc i) rest'
             else
               case setters opcode of
                 None \<Rightarrow> ([], NilSetter opcode, rest')
               | Some f \<Rightarrow>
                   (case setTerminalAttributes setters tc (Suc i) rest' of
                      (es, r) \<Rightarrow> (TermiosSet f (be32 b3 b2 b1 b0) # es, r)))
        | _ \<Rightarrow> ([], ValueEOF, []))"

section \<open>Running the command\<close>

definition set_command :: "cmd \<Rightarrow> st \<Rightarrow> st" where
  "set_command c s = s\<lparr> sess := (sess s)\<lparr> command := Some c \<rparr> \<rparr>"

definition createCommand :: "string list \<Rightarrow> st \<Rightarrow> cmd option \<times> st" where
  "createCommand args s =
     (if command (sess s) \<noteq> None then (None, s)
      else
        let c = \<lparr> Path = shellPath (sess s), Args = shellPath (sess s) # args,
                  Env = environment s, Stdio = Unset \<rparr>
        in (Some c, set_command c s))"

text \<open>\<^verbatim>\<open>commandRunner.Start\<close> is \<^verbatim>\<open>cmd.Start()\<close>: when it succeeds the command has a process.\<close>

definition commandRunner_Start :: "cmd \<Rightarrow> os_results \<Rightarrow> st \<Rightarrow> go_error option \<times> st" where
  "commandRunner_Start c r s =
     (let s1 = emit (RunnerStart c) s
      in case start r of
           None \<Rightarrow> (None, s1\<lparr> process := True \<rparr>)
         | Some e \<Rightarrow> (Some e, s1))"

definition run :: "cmd \<Rightarrow> os_results \<Rightarrow> st \<Rightarrow> go_error option \<times> st" where
  "run c r s =
     (let c1 = c\<lparr> Stdio := OnChannel \<rparr>;
          s1 = set_command c1 s
      in case stdinPipe r of
           Some e \<Rightarrow> (Some e, s1)
         | None \<Rightarrow> commandRunner_Start c1 r s1)"

definition runWithPty :: "tables \<Rightarrow> cmd \<Rightarrow> os_results \<Rightarrow> st \<Rightarrow> go_error option \<times> st" where
  "runWithPty T c r s =
     (case ptyOpen r of
        Inl e \<Rightarrow> (Some e, s)
      | Inr fd \<Rightarrow>
          let s1 = s\<lparr> sess := (sess s)\<lparr> ptyMaster := Some fd \<rparr> \<rparr>;
              c1 = c\<lparr> Stdio := OnPtySlave \<rparr>;
              s2 = set_command c1 s1
          in case setTerminalAttributes (TermAttrSetters T) (tcGetAttr r) 0
                    (Modelist (ptyRequest (sess s2))) of
               (es, stop, rest) \<Rightarrow>
                 let s3 = s2\<lparr> trace := trace s2 @ es \<rparr>
                 in case stop of
                      NilSetter opcode \<Rightarrow> (None, s3\<lparr> panicked := True \<rparr>)
                    | _ \<Rightarrow>
                        let s4 = setWindowSize fd (Columns (ptyRequest (sess s3)))
                                   (Rows (ptyRequest (sess s3))) s3
                        in commandRunner_Start c1 r s4)"

text \<open>\<^verbatim>\<open>sendExitMessage\<close>: one \<^verbatim>\<open>SendRequest\<close> on the channel in every branch; on a nil channel
  the call panics.\<close>

definition exitMessage :: "tables \<Rightarrow> go_error option \<Rightarrow> exit_msg" where
  "exitMessage T err =
     (case err of
        None \<Rightarrow> ExitStatus 0
      | Some OtherError \<Rightarrow> ExitStatus 255
      | Some ExitErrorNoWaitStatus \<Rightarrow> ExitStatus 255
      | Some (Signaled sg core) \<Rightarrow> ExitSignal (sshSignal T sg) core
      | Some (Exited code) \<Rightarrow> ExitStatus (word_of_int code))"

definition sendExitMessage :: "tables \<Rightarrow> go_error option \<Rightarrow> st \<Rightarrow> st" where
  "sendExitMessage T err s =
     (case channel (sess s) of
        None \<Rightarrow> s\<lparr> panicked := True \<rparr>
      | Some ch \<Rightarrow> emit (SendRequest (exitMessage T err)) s)"

text \<open>
  \<^verbatim>\<open>executeShell\<close>. The mutex is taken before \<^verbatim>\<open>createCommand\<close> and released by explicit calls,
  so a panic in between leaves it held. When the command has started, the goroutine that
  waits for it is recorded in \<open>waiter\<close>.
\<close>

definition executeShell :: "tables \<Rightarrow> request \<Rightarrow> string list \<Rightarrow> os_results \<Rightarrow> st \<Rightarrow> st" where
  "executeShell T request args r s =
     (let s0 = Lock s
      in case createCommand args s0 of
           (None, s1) \<Rightarrow>
             (let s2 = Unlock s1
              in if WantReply request then request_Reply request False s2 else s2)
         | (Some c, s1) \<Rightarrow>
             (let s2 = (if WantReply request then request_Reply request True s1 else s1)
              in case (if allocPty (sess s2) then runWithPty T c r s2 else run c r s2) of
                   (err, s3) \<Rightarrow>
                     if panicked s3 then s3
                     else
                       let s4 = Unlock s3
                       in case err of
                            Some e \<Rightarrow>
                              (let s5 = sendExitMessage T (Some e) s4
                               in if panicked s5 then s5 else destroy s5)
                          | None \<Rightarrow> s4\<lparr> waiter := InWait \<rparr>))"

definition handleExecRequest :: "tables \<Rightarrow> request \<Rightarrow> os_results \<Rightarrow> st \<Rightarrow> st" where
  "handleExecRequest T request r s =
     (case Payload request of
        ExecMsg cmdline \<Rightarrow>
          (let s1 = (if scpRegex_MatchString cmdline then emit (HandleSCPRequest cmdline) s else s)
           in executeShell T request [''-c'', cmdline] r s1)
      | _ \<Rightarrow> if WantReply request then request_Reply request False s else s)"

definition handleShellRequest :: "tables \<Rightarrow> request \<Rightarrow> os_results \<Rightarrow> st \<Rightarrow> st" where
  "handleShellRequest T request r s = executeShell T request [] r s"

section \<open>The request loop and the waiting goroutine\<close>

text \<open>The \<^verbatim>\<open>switch\<close> of \<^verbatim>\<open>serviceRequests\<close> on one request.\<close>

definition serviceRequest :: "tables \<Rightarrow> request \<Rightarrow> os_results \<Rightarrow> st \<Rightarrow> st" where
  "serviceRequest T req r s =
     (if Type req = ''env'' then handleEnvironmentRequest req s
      else if Type req = ''signal'' then handleSignalRequest T req s
      else if Type req = ''pty-req'' then handlePtyRequest req s
      else if Type req = ''window-change'' then handleWindowChangeRequest req s
      else if Type req = ''exec'' then handleExecRequest T req r s
      else if Type req = ''shell'' then handleShellRequest T req r s
      else if WantReply req then request_Reply req False s
      else s)"

text \<open>
  A session is driven by what reaches it: a request on the request stream, the end of the
  request stream, the return of \<^verbatim>\<open>runner.Wait\<close> in the waiting goroutine, and that goroutine
  going on to \<^verbatim>\<open>destroy\<close>. The order of these events is not fixed by the program; a run is
  any list of them. A handler runs to its end before the next event (the handlers of one
  session run in one goroutine, and \<^verbatim>\<open>destroy\<close> waits for the mutex).

  A panic in the request loop runs the deferred \<^verbatim>\<open>destroy\<close> of \<^verbatim>\<open>serviceRequests\<close>: with the
  mutex still held it blocks for ever and the loop is stuck; otherwise it completes and
  the process ends.
\<close>

datatype event =
    Request request os_results
  | RequestsClosed
  | ChildExited "go_error option"
  | WaiterDestroys

definition unwind :: "st \<Rightarrow> st" where
  "unwind s =
     (if mutex (sess s) then s\<lparr> panicked := False, serving := False \<rparr>
      else (destroy s)\<lparr> panicked := False, crashed := True, serving := False \<rparr>)"

definition after_handler :: "st \<Rightarrow> st" where
  "after_handler s = (if panicked s then unwind s else s)"

fun step :: "tables \<Rightarrow> event \<Rightarrow> st \<Rightarrow> st" where
  "step T (Request req r) s =
     (if crashed s \<or> \<not> serving s then s else after_handler (serviceRequest T req r s))"
| "step T RequestsClosed s =
     (if crashed s \<or> \<not> serving s then s else destroy (s\<lparr> serving := False \<rparr>))"
| "step T (ChildExited err) s =
     (if crashed s \<or> waiter s \<noteq> InWait then s
      else let s1 = sendExitMessage T err s
           in if panicked s1 then s1\<lparr> panicked := False, crashed := True \<rparr>
              else s1\<lparr> waiter := AfterSend \<rparr>)"
| "step T WaiterDestroys s =
     (if crashed s \<or> waiter s \<noteq> AfterSend then s else (destroy s)\<lparr> waiter := NoWaiter \<rparr>)"

fun run_events :: "tables \<Rightarrow> event list \<Rightarrow> st \<Rightarrow> st" where
  "run_events T [] s = s"
| "run_events T (e # es) s = run_events T es (step T e s)"

text \<open>The state in which \<^verbatim>\<open>HandleNewChannel\<close> starts \<^verbatim>\<open>serviceRequests\<close> on a new session.\<close>

definition start_state :: "SessionChannelHandler \<Rightarrow> nat \<Rightarrow> heap \<Rightarrow> (string \<rightharpoonup> string) \<Rightarrow> st" where
  "start_state handler ch H os =
     \<lparr> sess = newSession handler ch, heap = H, osenv = os, trace = [], panicked = False,
       crashed = False, serving = True, waiter = NoWaiter, process = False \<rparr>"

section \<open>What the properties of a run are stated with\<close>

fun is_exit :: "effect \<Rightarrow> bool" where
  "is_exit (SendRequest m) = True"
| "is_exit _ = False"

fun is_close :: "effect \<Rightarrow> bool" where
  "is_close (ChannelClose ch) = True"
| "is_close _ = False"

text \<open>The number of exit messages in a trace, and whether the channel is closed in it.\<close>

definition exits :: "effect list \<Rightarrow> nat" where
  "exits t = length (filter is_exit t)"

definition has_close :: "effect list \<Rightarrow> bool" where
  "has_close t = list_ex is_close t"

text \<open>No exit message comes after a close of the channel.\<close>

fun exit_before_close :: "effect list \<Rightarrow> bool" where
  "exit_before_close [] = True"
| "exit_before_close (e # t) = ((if is_close e then exits t = 0 else True) \<and> exit_before_close t)"


text \<open>The handler that the type of the request selects can unmarshal the payload.\<close>

definition unmarshals :: "request \<Rightarrow> bool" where
  "unmarshals req =
     (case Payload req of
        EnvMsg name val \<Rightarrow> Type req = ''env''
      | SignalMsg name \<Rightarrow> Type req = ''signal''
      | PtyMsg m \<Rightarrow> Type req = ''pty-req''
      | WindowChangeMsg columns rows widthPx heightPx \<Rightarrow> Type req = ''window-change''
      | ExecMsg cmdline \<Rightarrow> Type req = ''exec''
      | Malformed \<Rightarrow> False)"

definition started :: "st \<Rightarrow> bool" where
  "started s \<longleftrightarrow> command (sess s) \<noteq> None"





section \<open>Example data\<close>

text \<open>
  A handler whose shell is \<^verbatim>\<open>/bin/sh\<close> and whose default environment is the map at address 0;
  tables with the signal numbers of Linux and a setter for each opcode that RFC 4254
  assigns; an operating system on which every call succeeds and \<^verbatim>\<open>pty.Open\<close> returns
  descriptor 5.
\<close>

abbreviation example_handler :: SessionChannelHandler where
  "example_handler \<equiv> \<lparr> shellLocator = ''/bin/sh'', defaultEnv = Some 0 \<rparr>"

abbreviation rfc4254_opcodes :: "u8 list" where
  "rfc4254_opcodes \<equiv>
     [1, 2, 3, 4, 5, 6, 7, 8, 9, 10, 11, 12, 13, 14, 15, 16, 17, 18,
      30, 31, 32, 33, 34, 35, 36, 37, 38, 39, 40, 41,
      50, 51, 52, 53, 54, 55, 56, 57, 58, 59, 60, 61, 62,
      70, 71, 72, 73, 74, 75, 90, 91, 92, 93]"

definition example_tables :: tables where
  "example_tables =
     \<lparr> SyscallSignals = map_of
         [(''ABRT'', 6), (''ALRM'', 14), (''FPE'', 8), (''HUP'', 1), (''ILL'', 4), (''INT'', 2),
          (''KILL'', 9), (''PIPE'', 13), (''QUIT'', 3), (''SEGV'', 11), (''TERM'', 15),
          (''USR1'', 10), (''USR2'', 12)],
       SSHSignals = map_of
         [(6, ''ABRT''), (14, ''ALRM''), (8, ''FPE''), (1, ''HUP''), (4, ''ILL''), (2, ''INT''),
          (9, ''KILL''), (13, ''PIPE''), (3, ''QUIT''), (11, ''SEGV''), (15, ''TERM''),
          (10, ''USR1''), (12, ''USR2'')],
       TermAttrSetters =
         (\<lambda>opcode. if opcode \<in> set rfc4254_opcodes then Some (unat opcode) else None) \<rparr>"

abbreviation os_ok :: os_results where
  "os_ok \<equiv> \<lparr> stdinPipe = None, ptyOpen = Inr 5, tcGetAttr = (\<lambda>_. True), start = None \<rparr>"

abbreviation os_start_fails :: os_results where
  "os_start_fails \<equiv>
     \<lparr> stdinPipe = None, ptyOpen = Inr 5, tcGetAttr = (\<lambda>_. True), start = Some OtherError \<rparr>"

abbreviation example_start :: st where
  "example_start \<equiv> start_state example_handler 1 (\<lambda>_. []) Map.empty"

abbreviation shell_request :: request where
  "shell_request \<equiv> \<lparr> Type = ''shell'', WantReply = True, Payload = Malformed \<rparr>"

abbreviation exec_request :: "string \<Rightarrow> request" where
  "exec_request cmdline \<equiv> \<lparr> Type = ''exec'', WantReply = True, Payload = ExecMsg cmdline \<rparr>"

abbreviation pty_request :: "nat \<Rightarrow> nat \<Rightarrow> u8 list \<Rightarrow> request" where
  "pty_request cols rows modes \<equiv>
     \<lparr> Type = ''pty-req'', WantReply = True,
       Payload = PtyMsg \<lparr> Term = ''xterm'', Columns = of_nat cols, Rows = of_nat rows, Width = 0,
                          Height = 0, Modelist = modes \<rparr> \<rparr>"

abbreviation sh_cmd :: "string list \<Rightarrow> string list \<Rightarrow> stdio \<Rightarrow> cmd" where
  "sh_cmd args vars io \<equiv>
     \<lparr> Path = ''/bin/sh'', Args = ''/bin/sh'' # args,
       Env = [''PATH=/bin:/usr/bin'', ''LANG=en_US.UTF8''] @ vars @ [''HOME='', ''USER=''],
       Stdio = io \<rparr>"

section \<open>Properties of the environment\<close>

lemma environment_range_eq:
  "environment_range kvs acc =
     acc @ map (\<lambda>(k, v). k @ ''='' @ v)
             (filter (\<lambda>(k, v). k \<noteq> ''HOME'' \<and> k \<noteq> ''USER'') kvs)"
  by (induction kvs acc rule: environment_range.induct) auto

lemma filter_update_other:
  "\<not> P k \<Longrightarrow> filter (\<lambda>(a, b). P a) (AList.update k v kvs) = filter (\<lambda>(a, b). P a) kvs"
  by (induction kvs) auto

text \<open>
  C4. The list built by \<^verbatim>\<open>environment\<close> is \<^verbatim>\<open>PATH=/bin:/usr/bin\<close>, \<^verbatim>\<open>LANG=en_US.UTF8\<close>, then
  one \<^verbatim>\<open>k=v\<close> for every variable of the session other than HOME and USER (in the order the
  map is ranged over), then HOME and USER with the values of the host process. Whatever
  value a client stores under HOME or USER in the session's map, the list is the same.
\<close>

theorem environment_layout:
  "environment s =
     [''PATH=/bin:/usr/bin'', ''LANG=en_US.UTF8''] @
     map (\<lambda>(k, v). k @ ''='' @ v)
       (filter (\<lambda>(k, v). k \<noteq> ''HOME'' \<and> k \<noteq> ''USER'') (map_range (heap s) (env (sess s)))) @
     [''HOME='' @ Getenv (osenv s) ''HOME'', ''USER='' @ Getenv (osenv s) ''USER'']
   \<and> environment (s\<lparr> heap := (heap s)(a := AList.update ''HOME'' x (heap s a)) \<rparr>) = environment s
   \<and> environment (s\<lparr> heap := (heap s)(a := AList.update ''USER'' x (heap s a)) \<rparr>) = environment s"
proof -
  have upd: "filter (\<lambda>(k, v). k \<noteq> ''HOME'' \<and> k \<noteq> ''USER'') (AList.update k x kvs) =
             filter (\<lambda>(k, v). k \<noteq> ''HOME'' \<and> k \<noteq> ''USER'') kvs"
    if "k = ''HOME'' \<or> k = ''USER''" for k x and kvs :: gomap
    using that filter_update_other [of "\<lambda>k. k \<noteq> ''HOME'' \<and> k \<noteq> ''USER''" k x kvs] by auto
  have same: "map_range ((heap s)(a := AList.update k x (heap s a))) r =
              (if r = Some a then AList.update k x (heap s a) else map_range (heap s) r)" for k r
    by (cases r) (auto simp: map_range_def)
  have at: "map_range H (Some a) = H a" for H
    by (simp add: map_range_def)
  show ?thesis
    by (simp add: environment_def Let_def environment_range_eq same upd at)
qed

section \<open>Properties of destroy\<close>

lemma destroy_twice: "destroy (destroy s) = destroy s"
  by (simp add: destroy_def Let_def emit_def split: option.splits)

lemma destroy_funpow: "(destroy ^^ Suc n) s = destroy s"
  by (induction n) (simp_all add: destroy_twice)

lemma destroy_trace:
  "trace (destroy s) =
     trace s @ (if mutex (sess s) \<or> complete (sess s) then [] else closes (sess s))"
  by (simp add: destroy_def closes_def Let_def emit_def split: option.splits)

lemma destroy_complete: "\<not> mutex (sess s) \<Longrightarrow> complete (sess (destroy s))"
  by (simp add: destroy_def Let_def emit_def split: option.splits)

text \<open>
  C5. Calling \<^verbatim>\<open>destroy\<close> \<open>n \<ge> 1\<close> times leaves the state that one call leaves, and a further
  call changes nothing. When the mutex is free (the calls return), \<open>complete\<close> is true
  afterwards, and on a session that was not yet complete the \<open>n\<close> calls together have closed
  the channel once and the PTY master (when there is one) once; on a complete session they
  have closed nothing.
\<close>

theorem destroy_idempotent:
  assumes "1 \<le> n"
  shows "(destroy ^^ n) s = destroy s
       \<and> destroy ((destroy ^^ n) s) = (destroy ^^ n) s
       \<and> (\<not> mutex (sess s) \<longrightarrow>
            complete (sess ((destroy ^^ n) s)) \<and>
            trace ((destroy ^^ n) s) =
              trace s @ (if complete (sess s) then [] else closes (sess s)))"
proof -
  from assms obtain m where n: "n = Suc m" by (cases n) auto
  have one: "(destroy ^^ n) s = destroy s"
    unfolding n by (rule destroy_funpow)
  show ?thesis
    by (simp add: one destroy_twice destroy_trace destroy_complete)
qed

theorem destroy_idempotent_witness:
  "(destroy ^^ 3) (example_start\<lparr> sess := (sess example_start)\<lparr> ptyMaster := Some 5 \<rparr> \<rparr>)
   = example_start\<lparr> sess := (sess example_start)\<lparr> ptyMaster := Some 5, complete := True \<rparr>,
                    trace := [ChannelClose 1, PtyMasterClose 5] \<rparr>"
  using destroy_idempotent [of 3
     "example_start\<lparr> sess := (sess example_start)\<lparr> ptyMaster := Some 5 \<rparr> \<rparr>"]
  by (simp add: start_state_def newSession_def destroy_def emit_def Let_def)

section \<open>Evaluating the model\<close>

lemma example_tables_simps:
  "SyscallSignals example_tables ''USR1'' = Some 10"
  "SyscallSignals example_tables ''BOGUS'' = None"
  "TermAttrSetters example_tables 19 = None"
  by (simp_all add: example_tables_def)

lemmas run_simps = serviceRequest_def handleEnvironmentRequest_def handleSignalRequest_def
  handlePtyRequest_def handleWindowChangeRequest_def handleExecRequest_def handleShellRequest_def
  executeShell_def createCommand_def run_def runWithPty_def sendExitMessage_def exitMessage_def
  destroy_def unwind_def after_handler_def setWindowSize_def map_assign_def map_range_def
  syscallSignal_def sshSignal_def start_state_def newSession_def environment_def Getenv_def
  scpRegex_MatchString_def isSpace_def request_Reply_def commandRunner_Signal_def
  commandRunner_Start_def

lemmas state_simps = Lock_def Unlock_def emit_def set_command_def Let_def

lemma environment_frame [simp]:
  "environment (s\<lparr> trace := t \<rparr>) = environment s"
  "env x = env (sess s) \<Longrightarrow> environment (s\<lparr> sess := x \<rparr>) = environment s"
  "environment (s\<lparr> panicked := b \<rparr>) = environment s"
  "environment (s\<lparr> crashed := b \<rparr>) = environment s"
  "environment (s\<lparr> serving := b \<rparr>) = environment s"
  "environment (s\<lparr> waiter := w \<rparr>) = environment s"
  "environment (s\<lparr> process := b \<rparr>) = environment s"
  by (simp_all add: environment_def)

section \<open>The exec request and SCP\<close>

text \<open>
  C1. The specification has an SCP command handed to the SCP handler and no shell run for
  it. \<^verbatim>\<open>handleExecRequest\<close> calls the SCP handler and then falls through to
  \<^verbatim>\<open>executeShell\<close>: for a command that matches the SCP prefix, on a session without a command
  and without a PTY, the trace holds both the call of \<^verbatim>\<open>HandleSCPRequest\<close> and the start of
  \<^verbatim>\<open><shell> -c <Command>\<close>.
\<close>

theorem handleExecRequest_scp_also_runs_shell:
  assumes "scpRegex_MatchString cmdline"
    and "Payload request = ExecMsg cmdline"
    and "command (sess s) = None"
    and "\<not> allocPty (sess s)"
    and "stdinPipe r = None"
  shows "HandleSCPRequest cmdline \<in> set (trace (handleExecRequest T request r s))
       \<and> RunnerStart \<lparr> Path = shellPath (sess s), Args = [shellPath (sess s), ''-c'', cmdline],
                        Env = environment s, Stdio = OnChannel \<rparr>
           \<in> set (trace (handleExecRequest T request r s))"
  using assms
  by (auto simp: handleExecRequest_def executeShell_def createCommand_def run_def state_simps
        commandRunner_Start_def request_Reply_def sendExitMessage_def destroy_def
        split: option.splits)

theorem handleExecRequest_scp_also_runs_shell_witness:
  "scpRegex_MatchString ''scp -t /tmp/x''
   \<and> trace (handleExecRequest example_tables (exec_request ''scp -t /tmp/x'') os_ok example_start)
     = [HandleSCPRequest ''scp -t /tmp/x'', Reply True,
        RunnerStart (sh_cmd [''-c'', ''scp -t /tmp/x''] [] OnChannel)]"
  using handleExecRequest_scp_also_runs_shell [of "''scp -t /tmp/x''"
     "exec_request ''scp -t /tmp/x''" example_start os_ok example_tables]
  by (simp add: run_simps state_simps)

section \<open>Sessions of one handler share the environment map\<close>

text \<open>
  C2. The specification has every session own its environment. \<^verbatim>\<open>newSession\<close> stores the
  handler's \<^verbatim>\<open>defaultEnv\<close> map itself, not a copy, so all sessions of a handler refer to one
  table: after an env request served in the session on channel \<open>ch1\<close>, the table that the
  session on channel \<open>ch2\<close> ranges over holds the new variable, and so does \<^verbatim>\<open>defaultEnv\<close>.
\<close>

theorem env_request_reaches_other_session:
  assumes "defaultEnv handler = Some a"
    and "Payload request = EnvMsg name val"
  shows "env (newSession handler ch2) = env (newSession handler ch1)
       \<and> map_range (heap (handleEnvironmentRequest request
                            (start_state handler ch1 H os))) (env (newSession handler ch2))
           = AList.update name val (map_range H (env (newSession handler ch2)))
       \<and> map_of (map_range (heap (handleEnvironmentRequest request
                            (start_state handler ch1 H os))) (defaultEnv handler)) name = Some val"
  using assms
  by (simp add: handleEnvironmentRequest_def map_assign_def map_range_def start_state_def
        newSession_def state_simps request_Reply_def update_Some_unfold)

theorem env_request_reaches_other_session_witness:
  "map_range (\<lambda>_. []) (env (newSession example_handler 2)) = []
   \<and> map_range (heap (handleEnvironmentRequest
                        \<lparr> Type = ''env'', WantReply = True, Payload = EnvMsg ''FOO'' ''bar'' \<rparr>
                        (start_state example_handler 1 (\<lambda>_. []) Map.empty)))
        (env (newSession example_handler 2)) = [(''FOO'', ''bar'')]"
  using env_request_reaches_other_session [of example_handler 0
     "\<lparr> Type = ''env'', WantReply = True, Payload = EnvMsg ''FOO'' ''bar'' \<rparr>" "''FOO''" "''bar''"
     2 1 "\<lambda>_. []" Map.empty]
  by (simp add: map_range_def newSession_def)

section \<open>The modelist parser\<close>

lemma setTerminalAttributes_stops:
  "setTerminalAttributes setters tc i [] = ([], OpcodeEOF, [])"
  "opcode = 0 \<or> 160 \<le> opcode \<Longrightarrow>
     setTerminalAttributes setters tc i (opcode # rest) = ([], Terminator opcode, rest)"
  by simp_all

lemma setTerminalAttributes_known:
  "opcode \<noteq> 0 \<Longrightarrow> opcode < 160 \<Longrightarrow> setters opcode = Some f \<Longrightarrow> tc i \<Longrightarrow>
     setTerminalAttributes setters tc i (opcode # b3 # b2 # b1 # b0 # rest) =
       (case setTerminalAttributes setters tc (Suc i) rest of
          (es, r) \<Rightarrow> (TermiosSet f (be32 b3 b2 b1 b0) # es, r))"
  by (simp add: not_le [symmetric])

lemma setTerminalAttributes_no_termios:
  "opcode \<noteq> 0 \<Longrightarrow> opcode < 160 \<Longrightarrow> \<not> tc i \<Longrightarrow>
     setTerminalAttributes setters tc i (opcode # b3 # b2 # b1 # b0 # rest) =
       setTerminalAttributes setters tc (Suc i) rest"
  by (simp add: not_le [symmetric])

text \<open>
  C6. The specification has an opcode in 1..159 without an entry in \<^verbatim>\<open>TermAttrSetters\<close>
  skipped. The loop reads its four value bytes and, when \<^verbatim>\<open>TcGetAttr\<close> has succeeded, calls
  \<^verbatim>\<open>Set\<close> on the entry it did not find: the parser does not go on to the next opcode, it
  panics there.
\<close>

theorem setTerminalAttributes_missing_setter:
  assumes "opcode \<noteq> 0" and "opcode < 160" and "setters opcode = None" and "tc i"
  shows "setTerminalAttributes setters tc i (opcode # b3 # b2 # b1 # b0 # rest)
           = ([], NilSetter opcode, rest)"
  using assms by (simp add: not_le [symmetric])

theorem setTerminalAttributes_missing_setter_witness:
  "setTerminalAttributes (TermAttrSetters example_tables) (\<lambda>_. True) 0 [19, 0, 0, 0, 1, 0]
     = ([], NilSetter 19, [0])
   \<and> trace (run_events example_tables
              [Request (pty_request 80 24 [19, 0, 0, 0, 1, 0]) os_ok, Request shell_request os_ok,
               Request \<lparr> Type = ''env'', WantReply = True, Payload = EnvMsg ''A'' ''b'' \<rparr> os_ok]
              example_start)
     = [Reply True, Reply True]
   \<and> \<not> serving (run_events example_tables
              [Request (pty_request 80 24 [19, 0, 0, 0, 1, 0]) os_ok, Request shell_request os_ok,
               Request \<lparr> Type = ''env'', WantReply = True, Payload = EnvMsg ''A'' ''b'' \<rparr> os_ok]
              example_start)"
  using setTerminalAttributes_missing_setter [of 19 "TermAttrSetters example_tables"
     "\<lambda>_. True" 0 0 0 0 1 "[0]"]
  by (simp add: run_simps state_simps example_tables_simps)

section \<open>The signal request\<close>

text \<open>
  C7. The specification has a signal request that arrives when no child is running do
  nothing and be answered with true. \<^verbatim>\<open>handleSignalRequest\<close> takes \<^verbatim>\<open>sess.command\<close> not being
  nil for a running child, but \<^verbatim>\<open>createCommand\<close> stores the command before it is started: on
  a session whose command has no process (\<^verbatim>\<open>StdinPipe\<close>, \<^verbatim>\<open>pty.Open\<close> or \<^verbatim>\<open>Start\<close> failed) the
  handler calls \<^verbatim>\<open>Signal\<close> on the nil \<^verbatim>\<open>Process\<close> and panics. No reply is sent; the deferred calls
  release the mutex and destroy the session, and the process ends.
\<close>

theorem signal_without_process_panics:
  assumes "Type req = ''signal''" and "Payload req = SignalMsg name"
    and "command (sess s) \<noteq> None" and "\<not> process s"
    and "\<not> mutex (sess s)" and "serving s" and "\<not> crashed s" and "\<not> panicked s"
  shows "trace (step T (Request req r) s) =
           trace s @ (if complete (sess s) then [] else closes (sess s))
       \<and> crashed (step T (Request req r) s)
       \<and> \<not> serving (step T (Request req r) s)"
proof -
  from assms(3) obtain c where c: "command (sess s) = Some c"
    by auto
  have handled: "handleSignalRequest T req s = Unlock ((Lock s)\<lparr> panicked := True \<rparr>)"
    using assms(2,4) c
    by (simp add: handleSignalRequest_def commandRunner_Signal_def Lock_def Let_def)
  show ?thesis
    using assms(1,5-8)
    by (simp add: serviceRequest_def handled after_handler_def unwind_def destroy_trace
          closes_def Lock_def Unlock_def)
qed

theorem signal_without_process_panics_witness:
  "trace (run_events example_tables
            [Request (exec_request ''ls'') os_start_fails,
             Request \<lparr> Type = ''signal'', WantReply = True, Payload = SignalMsg ''TERM'' \<rparr> os_ok]
            example_start)
   = [Reply True, RunnerStart (sh_cmd [''-c'', ''ls''] [] OnChannel), SendRequest (ExitStatus 255),
      ChannelClose 1]
   \<and> crashed (run_events example_tables
            [Request (exec_request ''ls'') os_start_fails,
             Request \<lparr> Type = ''signal'', WantReply = True, Payload = SignalMsg ''TERM'' \<rparr> os_ok]
            example_start)"
proof -
  have first: "step example_tables (Request (exec_request ''ls'') os_start_fails) example_start
     = example_start
         \<lparr> sess := (sess example_start)
             \<lparr> command := Some (sh_cmd [''-c'', ''ls''] [] OnChannel), complete := True \<rparr>,
           trace := [Reply True, RunnerStart (sh_cmd [''-c'', ''ls''] [] OnChannel),
                     SendRequest (ExitStatus 255), ChannelClose 1] \<rparr>"
    by (simp add: run_simps state_simps)
  show ?thesis
    using signal_without_process_panics [of
        "\<lparr> Type = ''signal'', WantReply = True, Payload = SignalMsg ''TERM'' \<rparr>" "''TERM''"
        "step example_tables (Request (exec_request ''ls'') os_start_fails) example_start"
        example_tables os_ok]
    unfolding run_events.simps first by (simp add: start_state_def newSession_def)
qed

section \<open>The pty request\<close>

text \<open>
  C8, as the specification states it: a pty request that arrives while a command runs
  applies the requested window size to the live PTY. It fails: after a shell was started
  on a PTY of 80 by 24, a pty request for 132 by 50 adds only its reply to the trace; the
  one \<^verbatim>\<open>SetWinsize\<close> is that of the start.
\<close>

theorem pty_request_while_running_counterexample:
  "ptyMaster (sess (run_events example_tables
       [Request (pty_request 80 24 [0]) os_ok, Request shell_request os_ok] example_start))
     = Some 5
   \<and> trace (run_events example_tables
       [Request (pty_request 80 24 [0]) os_ok, Request shell_request os_ok,
        Request (pty_request 132 50 [0]) os_ok] example_start)
     = [Reply True, Reply True, SetWinsize 5 80 24,
        RunnerStart (sh_cmd [] [''TERM=xterm''] OnPtySlave), Reply True]"
  by (simp add: run_simps state_simps example_tables_simps)

text \<open>
  C8, amended. A well-formed pty request on a session whose environment map is not nil,
  before or after a command was started, sets \<open>allocPty\<close>, stores the request, sets
  \<^verbatim>\<open>env["TERM"]\<close> to its \<^verbatim>\<open>Term\<close> and replies true when a reply is wanted; it does nothing else,
  so no window size is applied to a PTY.
\<close>

theorem handlePtyRequest_effect:
  assumes "Payload request = PtyMsg m" and "env (sess s) = Some a" and "\<not> mutex (sess s)"
  shows "handlePtyRequest request s =
           s\<lparr> sess := (sess s)\<lparr> allocPty := True, ptyRequest := m \<rparr>,
              heap := (heap s)(a := AList.update ''TERM'' (Term m) (heap s a)),
              trace := trace s @ (if WantReply request then [Reply True] else []) \<rparr>
       \<and> map_of (map_range (heap (handlePtyRequest request s)) (env (sess s))) ''TERM''
           = Some (Term m)"
  using assms
  by (simp add: handlePtyRequest_def map_assign_def map_range_def state_simps request_Reply_def
        update_Some_unfold)

theorem handlePtyRequest_effect_witness:
  "handlePtyRequest (pty_request 132 50 [0])
      (example_start\<lparr> sess := (sess example_start)
                        \<lparr> command := Some (sh_cmd [] [] OnPtySlave), ptyMaster := Some 5 \<rparr> \<rparr>)
   = example_start\<lparr> sess := (sess example_start)
                        \<lparr> command := Some (sh_cmd [] [] OnPtySlave), ptyMaster := Some 5,
                          allocPty := True,
                          ptyRequest := \<lparr> Term = ''xterm'', Columns = 132, Rows = 50, Width = 0,
                             Height = 0, Modelist = [0] \<rparr> \<rparr>,
                     heap := (\<lambda>_. [])(0 := [(''TERM'', ''xterm'')]),
                     trace := [Reply True] \<rparr>"
  using handlePtyRequest_effect [of "pty_request 132 50 [0]"
       "\<lparr> Term = ''xterm'', Columns = 132, Rows = 50, Width = 0, Height = 0, Modelist = [0] \<rparr>"
       "example_start\<lparr> sess := (sess example_start)
                        \<lparr> command := Some (sh_cmd [] [] OnPtySlave), ptyMaster := Some 5 \<rparr> \<rparr>" 0]
  by (simp add: start_state_def newSession_def)

section \<open>Payloads that do not unmarshal\<close>

lemma env_unmarshal_failure:
  assumes "\<forall>name val. Payload request \<noteq> EnvMsg name val"
  shows "handleEnvironmentRequest request s =
           (if WantReply request then emit (Reply False) s else s)"
proof (cases "Payload request")
  case (EnvMsg name val)
  with assms show ?thesis by blast
qed (simp_all add: handleEnvironmentRequest_def request_Reply_def)

lemma signal_unmarshal_failure:
  assumes "\<forall>name. Payload request \<noteq> SignalMsg name"
  shows "handleSignalRequest T request s = (if WantReply request then emit (Reply False) s else s)"
proof (cases "Payload request")
  case (SignalMsg name)
  with assms show ?thesis by blast
qed (simp_all add: handleSignalRequest_def request_Reply_def)

lemma pty_unmarshal_failure:
  assumes "\<forall>m. Payload request \<noteq> PtyMsg m"
  shows "handlePtyRequest request s = (if WantReply request then emit (Reply False) s else s)"
proof (cases "Payload request")
  case (PtyMsg m)
  with assms show ?thesis by blast
qed (simp_all add: handlePtyRequest_def request_Reply_def)

lemma window_change_unmarshal_failure:
  assumes "\<forall>c r w h. Payload request \<noteq> WindowChangeMsg c r w h"
  shows "handleWindowChangeRequest request s =
           (if WantReply request then emit (Reply False) s else s)"
proof (cases "Payload request")
  case (WindowChangeMsg c r w h)
  with assms show ?thesis by blast
qed (simp_all add: handleWindowChangeRequest_def request_Reply_def)

lemma exec_unmarshal_failure:
  assumes "\<forall>c. Payload request \<noteq> ExecMsg c"
  shows "handleExecRequest T request r s = (if WantReply request then emit (Reply False) s else s)"
proof (cases "Payload request")
  case (ExecMsg c)
  with assms show ?thesis by blast
qed (simp_all add: handleExecRequest_def request_Reply_def)

text \<open>
  C9. A request of type \<^verbatim>\<open>env\<close>, \<^verbatim>\<open>signal\<close>, \<^verbatim>\<open>pty-req\<close>, \<^verbatim>\<open>window-change\<close> or \<^verbatim>\<open>exec\<close> whose payload
  its handler cannot unmarshal gets the reply false when it wants a reply and no reply when
  it does not, and nothing else happens: the session is as before, it is not destroyed, and
  the request loop goes on serving. (\<^verbatim>\<open>handleEnvironmentRequest\<close> calls \<^verbatim>\<open>request.Reply\<close> without
  looking at \<^verbatim>\<open>WantReply\<close>; the call sends nothing for a request that wants no reply.)
\<close>

theorem unmarshal_failure_reply:
  assumes "Type req \<in> set [''env'', ''signal'', ''pty-req'', ''window-change'', ''exec'']"
    and "\<not> unmarshals req"
    and "serving s" and "\<not> crashed s" and "\<not> panicked s"
  shows "step T (Request req r) s
           = (if WantReply req then s\<lparr> trace := trace s @ [Reply False] \<rparr> else s)
       \<and> serving (step T (Request req r) s)
       \<and> \<not> crashed (step T (Request req r) s)
       \<and> sess (step T (Request req r) s) = sess s
       \<and> heap (step T (Request req r) s) = heap s"
proof -
  have handled: "serviceRequest T req r s = (if WantReply req then emit (Reply False) s else s)"
  proof -
    from assms(1) consider "Type req = ''env''" | "Type req = ''signal''"
      | "Type req = ''pty-req''" | "Type req = ''window-change''" | "Type req = ''exec''"
      by auto
    then show ?thesis
    proof cases
      case 1
      with assms(2) have "\<forall>name val. Payload req \<noteq> EnvMsg name val"
        by (auto simp: unmarshals_def)
      with 1 show ?thesis
        by (simp add: serviceRequest_def env_unmarshal_failure)
    next
      case 2
      with assms(2) have "\<forall>name. Payload req \<noteq> SignalMsg name"
        by (auto simp: unmarshals_def)
      with 2 show ?thesis
        by (simp add: serviceRequest_def signal_unmarshal_failure)
    next
      case 3
      with assms(2) have "\<forall>m. Payload req \<noteq> PtyMsg m"
        by (auto simp: unmarshals_def)
      with 3 show ?thesis
        by (simp add: serviceRequest_def pty_unmarshal_failure)
    next
      case 4
      with assms(2) have "\<forall>c r w h. Payload req \<noteq> WindowChangeMsg c r w h"
        by (auto simp: unmarshals_def)
      with 4 show ?thesis
        by (simp add: serviceRequest_def window_change_unmarshal_failure)
    next
      case 5
      with assms(2) have "\<forall>c. Payload req \<noteq> ExecMsg c"
        by (auto simp: unmarshals_def)
      with 5 show ?thesis
        by (simp add: serviceRequest_def exec_unmarshal_failure)
    qed
  qed
  show ?thesis
    using assms(3-5) by (simp add: handled after_handler_def emit_def)
qed

theorem unmarshal_failure_reply_witness:
  "step example_tables (Request \<lparr> Type = ''env'', WantReply = False, Payload = Malformed \<rparr> os_ok)
     example_start = example_start
   \<and> step example_tables (Request \<lparr> Type = ''env'', WantReply = True, Payload = Malformed \<rparr> os_ok)
     example_start = example_start\<lparr> trace := [Reply False] \<rparr>
   \<and> step example_tables
       (Request \<lparr> Type = ''exec'', WantReply = True, Payload = SignalMsg ''TERM'' \<rparr> os_ok)
     example_start = example_start\<lparr> trace := [Reply False] \<rparr>"
  using unmarshal_failure_reply [of
      "\<lparr> Type = ''env'', WantReply = False, Payload = Malformed \<rparr>" example_start
      example_tables os_ok]
    unmarshal_failure_reply [of
      "\<lparr> Type = ''env'', WantReply = True, Payload = Malformed \<rparr>" example_start
      example_tables os_ok]
    unmarshal_failure_reply [of
      "\<lparr> Type = ''exec'', WantReply = True, Payload = SignalMsg ''TERM'' \<rparr>" example_start
      example_tables os_ok]
  by (simp add: unmarshals_def start_state_def)

section \<open>Requests of unknown type\<close>

text \<open>
  C10. A request whose type is none of \<^verbatim>\<open>env\<close>, \<^verbatim>\<open>signal\<close>, \<^verbatim>\<open>pty-req\<close>, \<^verbatim>\<open>window-change\<close>, \<^verbatim>\<open>exec\<close>,
  \<^verbatim>\<open>shell\<close> gets one reply, false, when a reply is wanted, and none otherwise; the session,
  the store of maps and the request loop are as before, so the loop goes on serving.
\<close>

theorem unknown_request_type:
  assumes "Type req \<notin> set [''env'', ''signal'', ''pty-req'', ''window-change'', ''exec'', ''shell'']"
    and "serving s" and "\<not> crashed s" and "\<not> panicked s"
  shows "step T (Request req r) s
           = (if WantReply req then s\<lparr> trace := trace s @ [Reply False] \<rparr> else s)
       \<and> serving (step T (Request req r) s)
       \<and> sess (step T (Request req r) s) = sess s
       \<and> heap (step T (Request req r) s) = heap s"
  using assms by (simp add: serviceRequest_def after_handler_def request_Reply_def emit_def)

theorem unknown_request_type_witness:
  "step example_tables (Request \<lparr> Type = ''bogus'', WantReply = True, Payload = Malformed \<rparr> os_ok)
     example_start = example_start\<lparr> trace := [Reply False] \<rparr>"
  using unknown_request_type [of "\<lparr> Type = ''bogus'', WantReply = True, Payload = Malformed \<rparr>"
      example_start example_tables os_ok]
  by (simp add: start_state_def)

section \<open>The exit message\<close>

lemma exits_simps [simp]:
  "exits [] = 0"
  "exits (e # t) = (if is_exit e then Suc (exits t) else exits t)"
  "exits (t @ u) = exits t + exits u"
  by (simp_all add: exits_def)

lemma has_close_simps [simp]:
  "has_close [] = False"
  "has_close (e # t) = (is_close e \<or> has_close t)"
  "has_close (t @ u) = (has_close t \<or> has_close u)"
  by (auto simp: has_close_def list_ex_iff)

lemma exit_before_close_append [simp]:
  "exit_before_close (t @ u) =
     (exit_before_close t \<and> exit_before_close u \<and> (has_close t \<longrightarrow> exits u = 0))"
  by (induction t) auto

lemma closes_obs [simp]:
  "exits (closes x) = 0"
  "exit_before_close (closes x)"
  by (simp_all add: closes_def split: option.splits)

lemma setTerminalAttributes_obs:
  "setTerminalAttributes S tc i bs = (es, r) \<Longrightarrow>
     exits es = 0 \<and> \<not> has_close es \<and> exit_before_close es"
proof (induction S tc i bs arbitrary: es r rule: setTerminalAttributes.induct)
  case (1 setters tc i)
  then show ?case by simp
next
  case (2 setters tc i opcode rest)
  then show ?case
    by (auto split: if_splits list.splits option.splits prod.splits)
qed

lemma setTerminalAttributes_fst [simp]:
  "exits (fst (setTerminalAttributes S tc i bs)) = 0"
  "\<not> has_close (fst (setTerminalAttributes S tc i bs))"
  "exit_before_close (fst (setTerminalAttributes S tc i bs))"
  using setTerminalAttributes_obs [of S tc i bs "fst (setTerminalAttributes S tc i bs)"
      "snd (setTerminalAttributes S tc i bs)"]
  by simp_all

lemmas block_simps = Lock_def Unlock_def emit_def set_command_def setWindowSize_def Let_def
  request_Reply_def commandRunner_Signal_def commandRunner_Start_def

lemma started_frame [simp]:
  "started (s\<lparr> trace := t \<rparr>) = started s"
  "started (s\<lparr> heap := H \<rparr>) = started s"
  "started (s\<lparr> panicked := b \<rparr>) = started s"
  "started (s\<lparr> crashed := b \<rparr>) = started s"
  "started (s\<lparr> serving := b \<rparr>) = started s"
  "started (s\<lparr> waiter := w \<rparr>) = started s"
  "started (s\<lparr> process := b \<rparr>) = started s"
  "command x = command (sess s) \<Longrightarrow> started (s\<lparr> sess := x \<rparr>) = started s"
  "command x \<noteq> None \<Longrightarrow> started (s\<lparr> sess := x \<rparr>)"
  by (simp_all add: started_def)

lemma destroy_obs [simp]:
  "panicked (destroy s) = panicked s"
  "crashed (destroy s) = crashed s"
  "serving (destroy s) = serving s"
  "waiter (destroy s) = waiter s"
  "mutex (sess (destroy s)) = mutex (sess s)"
  "channel (sess (destroy s)) = channel (sess s)"
  "started (destroy s) = started s"
  by (simp_all add: destroy_def started_def block_simps split: option.splits)

lemma destroy_upd [simp]:
  "destroy (s\<lparr> serving := b \<rparr>) = (destroy s)\<lparr> serving := b \<rparr>"
  "destroy (s\<lparr> waiter := w \<rparr>) = (destroy s)\<lparr> waiter := w \<rparr>"
  by (simp_all add: destroy_def block_simps split: option.splits)

lemma run_obs [simp]:
  "panicked (snd (run c r s)) = panicked s"
  "crashed (snd (run c r s)) = crashed s"
  "serving (snd (run c r s)) = serving s"
  "waiter (snd (run c r s)) = waiter s"
  "mutex (sess (snd (run c r s))) = mutex (sess s)"
  "channel (sess (snd (run c r s))) = channel (sess s)"
  "started (snd (run c r s))"
  "exits (trace (snd (run c r s))) = exits (trace s)"
  "has_close (trace (snd (run c r s))) = has_close (trace s)"
  "exit_before_close (trace (snd (run c r s))) = exit_before_close (trace s)"
  by (simp_all add: run_def block_simps split: option.split)

lemma runWithPty_obs [simp]:
  "panicked s \<Longrightarrow> panicked (snd (runWithPty T c r s))"
  "crashed (snd (runWithPty T c r s)) = crashed s"
  "serving (snd (runWithPty T c r s)) = serving s"
  "waiter (snd (runWithPty T c r s)) = waiter s"
  "mutex (sess (snd (runWithPty T c r s))) = mutex (sess s)"
  "channel (sess (snd (runWithPty T c r s))) = channel (sess s)"
  "started s \<Longrightarrow> started (snd (runWithPty T c r s))"
  "exits (trace (snd (runWithPty T c r s))) = exits (trace s)"
  "has_close (trace (snd (runWithPty T c r s))) = has_close (trace s)"
  "exit_before_close (trace (snd (runWithPty T c r s))) = exit_before_close (trace s)"
  by (simp_all add: runWithPty_def block_simps case_prod_beta
        split: sum.split modelist_end.split option.split)























section \<open>Further properties of the parser and of the handlers\<close>

text \<open>
  X1. The modelist parser stops at the end of the bytes, and at opcode 0 or an opcode of 160
  or more, leaving the following bytes unread; it stops when fewer than four value bytes
  follow an opcode in 1..159. For an opcode in 1..159 that has a setter, with \<^verbatim>\<open>TcGetAttr\<close>
  succeeding, it applies the setter to the big-endian value of the next four bytes and goes
  on behind them; when \<^verbatim>\<open>TcGetAttr\<close> fails, it goes on behind the four bytes without calling
  a setter.
\<close>

theorem setTerminalAttributes_stops_and_continues:
  "setTerminalAttributes setters tc i [] = ([], OpcodeEOF, [])
   \<and> (opcode = 0 \<or> 160 \<le> opcode \<longrightarrow>
        setTerminalAttributes setters tc i (opcode # rest) = ([], Terminator opcode, rest))
   \<and> (opcode \<noteq> 0 \<and> opcode < 160 \<and> length rest < 4 \<longrightarrow>
        setTerminalAttributes setters tc i (opcode # rest) = ([], ValueEOF, []))
   \<and> (opcode \<noteq> 0 \<and> opcode < 160 \<and> setters opcode = Some f \<and> tc i \<longrightarrow>
        setTerminalAttributes setters tc i (opcode # b3 # b2 # b1 # b0 # rest) =
          (case setTerminalAttributes setters tc (Suc i) rest of
             (es, r) \<Rightarrow> (TermiosSet f (be32 b3 b2 b1 b0) # es, r)))
   \<and> (opcode \<noteq> 0 \<and> opcode < 160 \<and> \<not> tc i \<longrightarrow>
        setTerminalAttributes setters tc i (opcode # b3 # b2 # b1 # b0 # rest) =
          setTerminalAttributes setters tc (Suc i) rest)"
proof (intro conjI impI)
  show "setTerminalAttributes setters tc i [] = ([], OpcodeEOF, [])"
    by simp
  show "setTerminalAttributes setters tc i (opcode # rest) = ([], Terminator opcode, rest)"
    if "opcode = 0 \<or> 160 \<le> opcode"
    using that by (rule setTerminalAttributes_stops(2))
  show "setTerminalAttributes setters tc i (opcode # rest) = ([], ValueEOF, [])"
    if "opcode \<noteq> 0 \<and> opcode < 160 \<and> length rest < 4"
  proof -
    from that have small: "\<not> (opcode = 0 \<or> 160 \<le> opcode)" by auto
    from that have "length rest < 4" by simp
    then have "(case rest of b3 # b2 # b1 # b0 # rest' \<Rightarrow> X b3 b2 b1 b0 rest' | _ \<Rightarrow> Y) = Y"
      for X :: "u8 \<Rightarrow> u8 \<Rightarrow> u8 \<Rightarrow> u8 \<Rightarrow> u8 list \<Rightarrow> effect list \<times> modelist_end \<times> u8 list" and Y
      by (auto split: list.splits)
    with small show ?thesis
      by (simp only: setTerminalAttributes.simps if_False)
  qed
  show "setTerminalAttributes setters tc i (opcode # b3 # b2 # b1 # b0 # rest) =
          (case setTerminalAttributes setters tc (Suc i) rest of
             (es, r) \<Rightarrow> (TermiosSet f (be32 b3 b2 b1 b0) # es, r))"
    if "opcode \<noteq> 0 \<and> opcode < 160 \<and> setters opcode = Some f \<and> tc i"
    using that setTerminalAttributes_known [of opcode setters f tc i b3 b2 b1 b0 rest] by blast
  show "setTerminalAttributes setters tc i (opcode # b3 # b2 # b1 # b0 # rest) =
          setTerminalAttributes setters tc (Suc i) rest"
    if "opcode \<noteq> 0 \<and> opcode < 160 \<and> \<not> tc i"
    using that setTerminalAttributes_no_termios [of opcode tc i setters b3 b2 b1 b0 rest] by blast
qed

theorem setTerminalAttributes_stops_and_continues_witness:
  "setTerminalAttributes (TermAttrSetters example_tables) (\<lambda>_. True) 0
     [2, 0, 0, 0, 3, 53, 0, 0, 1, 1, 0, 7]
   = ([TermiosSet 2 3, TermiosSet 53 257], Terminator 0, [7])
   \<and> setTerminalAttributes (TermAttrSetters example_tables) (\<lambda>_. False) 0
     [2, 0, 0, 0, 3, 19, 0, 0, 1, 1, 200, 7]
   = ([], Terminator 200, [7])
   \<and> setTerminalAttributes (TermAttrSetters example_tables) (\<lambda>_. True) 0 [2, 0, 0]
   = ([], ValueEOF, [])"
  using setTerminalAttributes_stops_and_continues [where setters = "TermAttrSetters example_tables"
      and tc = "\<lambda>_. True" and i = 0 and opcode = 2 and rest = "[0, 0]" and f = 2
      and ?b3.0 = 0 and ?b2.0 = 0 and ?b1.0 = 0 and ?b0.0 = 3]
  by (simp add: example_tables_def be32_def)

text \<open>
  X2. A well-formed signal request on a session whose command, if it has one, has a
  process, changes nothing but the trace: with a command, \<^verbatim>\<open>Signal\<close> is called once on its
  process, with the signal \<^verbatim>\<open>SyscallSignals\<close> gives for the name, or with signal 0 (the null
  signal, which delivers nothing) when the name has no entry; without a command nothing is
  called. The reply is true when a reply is wanted.
\<close>

theorem handleSignalRequest_effect:
  assumes "Payload request = SignalMsg name" and "\<not> mutex (sess s)" and "\<not> panicked s"
    and "command (sess s) \<noteq> None \<longrightarrow> process s"
  shows "handleSignalRequest T request s =
           s\<lparr> trace := trace s
                @ (case command (sess s) of
                     None \<Rightarrow> []
                   | Some c \<Rightarrow>
                       [RunnerSignal (case SyscallSignals T name of None \<Rightarrow> 0 | Some sg \<Rightarrow> sg)])
                @ (if WantReply request then [Reply True] else []) \<rparr>"
  using assms
  by (simp add: handleSignalRequest_def commandRunner_Signal_def request_Reply_def
        syscallSignal_def state_simps split: option.splits)

theorem handleSignalRequest_effect_witness:
  "trace (run_events example_tables
            [Request shell_request os_ok,
             Request \<lparr> Type = ''signal'', WantReply = True, Payload = SignalMsg ''USR1'' \<rparr> os_ok,
             Request \<lparr> Type = ''signal'', WantReply = True, Payload = SignalMsg ''BOGUS'' \<rparr> os_ok]
            example_start)
     = [Reply True, RunnerStart (sh_cmd [] [] OnChannel), RunnerSignal 10, Reply True,
        RunnerSignal 0, Reply True]
   \<and> handleSignalRequest example_tables
     \<lparr> Type = ''signal'', WantReply = True, Payload = SignalMsg ''USR1'' \<rparr> example_start
   = example_start\<lparr> trace := [Reply True] \<rparr>
   \<and> handleSignalRequest example_tables
     \<lparr> Type = ''signal'', WantReply = False, Payload = SignalMsg ''BOGUS'' \<rparr>
     (example_start\<lparr> sess := (sess example_start)\<lparr> command := Some (sh_cmd [] [] OnChannel) \<rparr>,
                     process := True \<rparr>)
   = example_start\<lparr> sess := (sess example_start)\<lparr> command := Some (sh_cmd [] [] OnChannel) \<rparr>,
                    process := True, trace := [RunnerSignal 0] \<rparr>"
  using handleSignalRequest_effect [of
      "\<lparr> Type = ''signal'', WantReply = True, Payload = SignalMsg ''USR1'' \<rparr>" "''USR1''"
      example_start example_tables]
    handleSignalRequest_effect [of
      "\<lparr> Type = ''signal'', WantReply = False, Payload = SignalMsg ''BOGUS'' \<rparr>" "''BOGUS''"
      "example_start\<lparr> sess := (sess example_start)\<lparr> command := Some (sh_cmd [] [] OnChannel) \<rparr>,
                     process := True \<rparr>" example_tables]
  by (simp add: run_simps state_simps example_tables_simps)

text \<open>
  X3. A well-formed window-change request stores the new columns and rows when a PTY was
  asked for, applies the stored size to the PTY master when there is one, and replies true
  when a reply is wanted.
\<close>

theorem handleWindowChangeRequest_effect:
  assumes "Payload request = WindowChangeMsg columns rows widthPx heightPx"
    and "\<not> mutex (sess s)"
  shows "sess (handleWindowChangeRequest request s) =
           (if allocPty (sess s)
            then (sess s)\<lparr> ptyRequest := (ptyRequest (sess s))\<lparr> Columns := columns, Rows := rows \<rparr> \<rparr>
            else sess s)
       \<and> trace (handleWindowChangeRequest request s) =
           trace s
           @ (case ptyMaster (sess s) of
                None \<Rightarrow> []
              | Some fd \<Rightarrow>
                  [SetWinsize fd
                     (ucast (if allocPty (sess s) then columns else Columns (ptyRequest (sess s))))
                     (ucast (if allocPty (sess s) then rows else Rows (ptyRequest (sess s))))])
           @ (if WantReply request then [Reply True] else [])
       \<and> heap (handleWindowChangeRequest request s) = heap s"
proof (cases "ptyMaster (sess s)")
  case None
  with assms show ?thesis
    by (cases "allocPty (sess s)"; cases "WantReply request")
       (simp_all add: handleWindowChangeRequest_def setWindowSize_def request_Reply_def
          state_simps)
next
  case (Some fd)
  with assms show ?thesis
    by (cases "allocPty (sess s)"; cases "WantReply request")
       (simp_all add: handleWindowChangeRequest_def setWindowSize_def request_Reply_def
          state_simps)
qed


theorem handleWindowChangeRequest_effect_witness:
  "trace (handleWindowChangeRequest
            \<lparr> Type = ''window-change'', WantReply = True, Payload = WindowChangeMsg 132 50 0 0 \<rparr>
            (example_start\<lparr> sess := (sess example_start)
                \<lparr> command := Some (sh_cmd [] [''TERM=xterm''] OnPtySlave), allocPty := True,
                  ptyRequest := \<lparr> Term = ''xterm'', Columns = 80, Rows = 24, Width = 0,
                                  Height = 0, Modelist = [0] \<rparr>,
                  ptyMaster := Some 5 \<rparr> \<rparr>))
     = [SetWinsize 5 132 50, Reply True]
   \<and> Columns (ptyRequest (sess (handleWindowChangeRequest
            \<lparr> Type = ''window-change'', WantReply = True, Payload = WindowChangeMsg 132 50 0 0 \<rparr>
            (example_start\<lparr> sess := (sess example_start)
                \<lparr> command := Some (sh_cmd [] [''TERM=xterm''] OnPtySlave), allocPty := True,
                  ptyRequest := \<lparr> Term = ''xterm'', Columns = 80, Rows = 24, Width = 0,
                                  Height = 0, Modelist = [0] \<rparr>,
                  ptyMaster := Some 5 \<rparr> \<rparr>)))) = 132"
  using handleWindowChangeRequest_effect [of
      "\<lparr> Type = ''window-change'', WantReply = True, Payload = WindowChangeMsg 132 50 0 0 \<rparr>"
      132 50 0 0
      "example_start\<lparr> sess := (sess example_start)
                \<lparr> command := Some (sh_cmd [] [''TERM=xterm''] OnPtySlave), allocPty := True,
                  ptyRequest := \<lparr> Term = ''xterm'', Columns = 80, Rows = 24, Width = 0,
                                  Height = 0, Modelist = [0] \<rparr>,
                  ptyMaster := Some 5 \<rparr> \<rparr>"]
  by (simp add: start_state_def newSession_def)

end
